theory Spec2Isabelle
  imports Complex_Main
begin

section \<open>JavaScript numbers\<close>

text \<open>
  The source computes with JavaScript numbers. A number is modelled as an exact
  rational, or one of the three special values a division can produce: dividing by zero
  does not raise in JavaScript, it yields an infinity or \<open>NaN\<close>, and every comparison
  with \<open>NaN\<close> is false. The operations of this section are exact on finite values
  and zero carries no sign; the risk computation is stated with them. Rounding to a
  double is defined below and is applied where a result is cut to an integer, in the
  borrow endpoint.
\<close>

datatype jsnum = NaN | NegInf | Fin rat | PosInf

definition js_sign :: "jsnum \<Rightarrow> rat" where
  "js_sign a = (case a of NaN \<Rightarrow> 0 | NegInf \<Rightarrow> - 1 | Fin x \<Rightarrow> sgn x | PosInf \<Rightarrow> 1)"

definition js_inf_of_sign :: "rat \<Rightarrow> jsnum" where
  "js_inf_of_sign r = (if 0 < r then PosInf else if r < 0 then NegInf else NaN)"

text \<open>\<open>a * b\<close>: an infinity times zero is \<open>NaN\<close>.\<close>

fun js_mul :: "jsnum \<Rightarrow> jsnum \<Rightarrow> jsnum" where
  "js_mul NaN b = NaN"
| "js_mul a NaN = NaN"
| "js_mul (Fin x) (Fin y) = Fin (x * y)"
| "js_mul a b = js_inf_of_sign (js_sign a * js_sign b)"

text \<open>
  \<open>a / b\<close>: a finite non-zero value over zero is an infinity with the sign of the
  dividend, zero over zero and infinity over infinity are \<open>NaN\<close>.
\<close>

fun js_div :: "jsnum \<Rightarrow> jsnum \<Rightarrow> jsnum" where
  "js_div NaN b = NaN"
| "js_div a NaN = NaN"
| "js_div (Fin x) (Fin y) = (if y = 0 then js_inf_of_sign x else Fin (x / y))"
| "js_div (Fin x) b = Fin 0"
| "js_div a (Fin y) = (if y = 0 then a else js_inf_of_sign (js_sign a * sgn y))"
| "js_div a b = NaN"

text \<open>\<open>a - b\<close>: the difference of two equal infinities is \<open>NaN\<close>.\<close>

fun js_sub :: "jsnum \<Rightarrow> jsnum \<Rightarrow> jsnum" where
  "js_sub NaN b = NaN"
| "js_sub a NaN = NaN"
| "js_sub (Fin x) (Fin y) = Fin (x - y)"
| "js_sub PosInf PosInf = NaN"
| "js_sub NegInf NegInf = NaN"
| "js_sub PosInf b = PosInf"
| "js_sub NegInf b = NegInf"
| "js_sub (Fin x) PosInf = NegInf"
| "js_sub (Fin x) NegInf = PosInf"

text \<open>\<open>a < b\<close> and \<open>a > b\<close>: false as soon as one side is \<open>NaN\<close>.\<close>

fun js_lt :: "jsnum \<Rightarrow> jsnum \<Rightarrow> bool" where
  "js_lt NaN b = False"
| "js_lt a NaN = False"
| "js_lt (Fin x) (Fin y) = (x < y)"
| "js_lt NegInf NegInf = False"
| "js_lt NegInf b = True"
| "js_lt a PosInf = (a \<noteq> PosInf)"
| "js_lt a b = False"

definition js_gt :: "jsnum \<Rightarrow> jsnum \<Rightarrow> bool" where
  "js_gt a b = js_lt b a"

text \<open>\<open>a <= b\<close>, used to state the range of a price.\<close>

definition js_le :: "jsnum \<Rightarrow> jsnum \<Rightarrow> bool" where
  "js_le a b = (a \<noteq> NaN \<and> b \<noteq> NaN \<and> \<not> js_lt b a)"

text \<open>\<open>Math.ceil\<close>.\<close>

definition Math_ceil :: "jsnum \<Rightarrow> jsnum" where
  "Math_ceil a = (case a of Fin x \<Rightarrow> Fin (of_int \<lceil>x\<rceil>) | _ \<Rightarrow> a)"

text \<open>Truthiness of a number: \<open>0\<close> and \<open>NaN\<close> are falsy.\<close>

definition truthy_num :: "jsnum \<Rightarrow> bool" where
  "truthy_num a = (a \<noteq> NaN \<and> a \<noteq> Fin 0)"

subsection \<open>\<open>parseFloat\<close>\<close>

text \<open>
  \<open>parseFloat\<close> skips leading white space and reads the longest prefix that is a
  decimal literal: an optional sign, then \<open>Infinity\<close>, or digits with an optional
  fraction and an optional exponent. With no such prefix the result is \<open>NaN\<close>.
  Strings are taken to be ASCII.
\<close>

definition is_digit :: "char \<Rightarrow> bool" where
  "is_digit c = (let n = (of_char c :: int) in 48 \<le> n \<and> n \<le> 57)"

definition is_space :: "char \<Rightarrow> bool" where
  "is_space c = (let n = (of_char c :: int) in n = 32 \<or> (9 \<le> n \<and> n \<le> 13))"

definition digits_val :: "string \<Rightarrow> int" where
  "digits_val ds = foldl (\<lambda>acc c. 10 * acc + (of_char c - 48)) 0 ds"

definition starts_with :: "string \<Rightarrow> string \<Rightarrow> bool" where
  "starts_with p s = (take (length p) s = p)"

text \<open>The exponent part: \<open>e\<close> or \<open>E\<close>, an optional sign, at least one digit; otherwise 0.\<close>

definition exponent_of :: "string \<Rightarrow> int" where
  "exponent_of s =
     (if starts_with ''e'' s \<or> starts_with ''E'' s then
        (let t = tl s;
             neg = starts_with ''-'' t;
             u = (if neg \<or> starts_with ''+'' t then tl t else t);
             ds = takeWhile is_digit u
         in if ds = [] then 0
            else if neg then - digits_val ds else digits_val ds)
      else 0)"

definition scale10 :: "rat \<Rightarrow> int \<Rightarrow> rat" where
  "scale10 m e = (if 0 \<le> e then m * 10 ^ nat e else m / 10 ^ nat (- e))"

definition unsigned_literal :: "string \<Rightarrow> jsnum" where
  "unsigned_literal s =
     (if starts_with ''Infinity'' s then PosInf
      else
        (let ip = takeWhile is_digit s;
             r = dropWhile is_digit s;
             dot = starts_with ''.'' r;
             fp = (if dot then takeWhile is_digit (tl r) else []);
             r2 = (if dot then dropWhile is_digit (tl r) else r)
         in if ip = [] \<and> fp = [] then NaN
            else Fin (scale10
                   (of_int (digits_val ip) + of_int (digits_val fp) / 10 ^ length fp)
                   (exponent_of r2))))"

definition parseFloat :: "string \<Rightarrow> jsnum" where
  "parseFloat str =
     (let s = dropWhile is_space str in
      if starts_with ''-'' s then js_sub (Fin 0) (unsigned_literal (tl s))
      else if starts_with ''+'' s then unsigned_literal (tl s)
      else unsigned_literal s)"

subsection \<open>Rounding to a double\<close>

text \<open>
  A double has a significand of 53 bits and a binary exponent between -1022 and 1023.
  \<open>round64\<close> gives the double nearest to a rational, ties going to the even
  significand: a value below the normal range is rounded on the grid of spacing
  \<open>2^-1074\<close>, and a result whose exponent exceeds 1023 is an infinity.
\<close>

fun bitlen :: "int \<Rightarrow> nat" where
  "bitlen n = (if n \<le> 0 then 0 else Suc (bitlen (n div 2)))"

declare bitlen.simps [simp del]

definition pow2 :: "int \<Rightarrow> rat" where
  "pow2 k = (if 0 \<le> k then 2 ^ nat k else 1 / 2 ^ nat (- k))"

text \<open>
  The binary exponent of a positive rational: the \<open>e\<close> with \<open>2^e \<le> x < 2^(e+1)\<close>,
  read off the bit length of the integer part, or of the reciprocal below 1.
\<close>

definition exponent2 :: "rat \<Rightarrow> int" where
  "exponent2 x =
     (if 1 \<le> x then int (bitlen \<lfloor>x\<rfloor>) - 1 else - int (bitlen (\<lceil>1 / x\<rceil> - 1)))"

definition round_half_even :: "rat \<Rightarrow> int" where
  "round_half_even x =
     (let f = \<lfloor>x\<rfloor>; d = x - of_int f
      in if d < 1 / 2 then f else if 1 / 2 < d then f + 1 else if even f then f else f + 1)"

definition round64_pos :: "rat \<Rightarrow> jsnum" where
  "round64_pos x =
     (let q = max (exponent2 x) (- 1022) - 52;
          r = of_int (round_half_even (x / pow2 q)) * pow2 q
      in if 1024 \<le> exponent2 r then PosInf else Fin r)"

definition round64 :: "rat \<Rightarrow> jsnum" where
  "round64 x =
     (if x = 0 then Fin 0
      else if 0 < x then round64_pos x
      else js_sub (Fin 0) (round64_pos (- x)))"

definition to_double :: "jsnum \<Rightarrow> jsnum" where
  "to_double a = (case a of Fin x \<Rightarrow> round64 x | _ \<Rightarrow> a)"

text \<open>
  Division, multiplication and \<open>parseFloat\<close> as the engine carries them out: the
  exact result, rounded to a double.
\<close>

definition div64 :: "jsnum \<Rightarrow> jsnum \<Rightarrow> jsnum" where
  "div64 a b = to_double (js_div a b)"

definition mul64 :: "jsnum \<Rightarrow> jsnum \<Rightarrow> jsnum" where
  "mul64 a b = to_double (js_mul a b)"

definition parseFloat64 :: "string \<Rightarrow> jsnum" where
  "parseFloat64 str = to_double (parseFloat str)"

section \<open>JSON values\<close>

text \<open>
  JSON values as far as the two endpoints look at them: they test fields for
  truthiness and pass them on. Arrays and objects are always truthy and are not opened.
  A field that the body does not carry is \<open>None\<close> (\<open>undefined\<close>).
\<close>

datatype jsval = JNull | JBool bool | JNum jsnum | JStr string | JCompound

definition truthy :: "jsval option \<Rightarrow> bool" where
  "truthy v =
     (case v of
        None \<Rightarrow> False
      | Some JNull \<Rightarrow> False
      | Some (JBool b) \<Rightarrow> b
      | Some (JNum a) \<Rightarrow> truthy_num a
      | Some (JStr t) \<Rightarrow> t \<noteq> []
      | Some JCompound \<Rightarrow> True)"

section \<open>The risk computation (\<open>calculateStats\<close>)\<close>

text \<open>
  A position as the chain client returns it. The four quantities are integer strings at
  fixed scales (collateral and supplied amount \<open>10^18\<close>, borrowed amount \<open>10^6\<close>,
  entry price \<open>10^8\<close>); the expiry is a number of Unix seconds. Only the fields that
  the dashboard reads are kept.
\<close>

record Position =
  collateralLINK :: string
  suppliedLINK :: string
  borrowedUSDC :: string
  entryPrice :: string
  preAuthExpiryTime :: jsnum
  isActive :: bool

record PositionStats =
  collateralUSD :: jsnum
  currentCollateralUSD :: jsnum
  totalExposureLINK :: jsnum
  totalExposureUSD :: jsnum
  unrealizedPnL :: jsnum
  unrealizedPnLPercent :: jsnum
  liquidationPrice :: jsnum
  healthFactor :: jsnum
  timeRemaining :: jsnum
  currentLTV :: jsnum
  isAtRisk :: bool

text \<open>The decoded quantities (lines 14 to 17 of the dashboard).\<close>

definition dec_collateralLINK :: "Position \<Rightarrow> jsnum" where
  "dec_collateralLINK p = js_div (parseFloat (collateralLINK p)) (Fin (10 ^ 18))"

definition dec_suppliedLINK :: "Position \<Rightarrow> jsnum" where
  "dec_suppliedLINK p = js_div (parseFloat (suppliedLINK p)) (Fin (10 ^ 18))"

definition dec_borrowedUSDC :: "Position \<Rightarrow> jsnum" where
  "dec_borrowedUSDC p = js_div (parseFloat (borrowedUSDC p)) (Fin (10 ^ 6))"

definition dec_entryPrice :: "Position \<Rightarrow> jsnum" where
  "dec_entryPrice p = js_div (parseFloat (entryPrice p)) (Fin (10 ^ 8))"

text \<open>
  The exposure at the entry price is a local of \<open>calculateStats\<close> that the snapshot
  does not carry; it is named here so that it can be stated.
\<close>

definition initialTotalExposureUSD :: "Position \<Rightarrow> jsnum" where
  "initialTotalExposureUSD p = js_mul (dec_suppliedLINK p) (dec_entryPrice p)"

definition liquidationThreshold :: jsnum where
  "liquidationThreshold = Fin 0.85"

text \<open>
  \<open>calculateStats position currentLinkPrice\<close>; the third argument is the value of
  \<open>Date.now()\<close>, in milliseconds.
\<close>

definition calculateStats :: "Position \<Rightarrow> jsnum \<Rightarrow> int \<Rightarrow> PositionStats" where
  "calculateStats position currentLinkPrice date_now =
     (let collateral = dec_collateralLINK position;
          supplied = dec_suppliedLINK position;
          borrowed = dec_borrowedUSDC position;
          entry = dec_entryPrice position;
          initialCollateralUSD = js_mul collateral entry;
          currentCollateral = js_mul collateral currentLinkPrice;
          totalExposure = js_mul supplied currentLinkPrice;
          pnl = js_sub totalExposure (initialTotalExposureUSD position);
          hf = (if js_gt totalExposure (Fin 0)
                then js_div (js_mul totalExposure liquidationThreshold) borrowed
                else Fin 0);
          liq = (if js_gt supplied (Fin 0)
                 then js_div borrowed (js_mul supplied liquidationThreshold)
                 else Fin 0);
          now = Fin (of_int (date_now div 1000));
          remaining = js_sub (preAuthExpiryTime position) now;
          ltv = (if js_gt totalExposure (Fin 0)
                 then js_mul (js_div borrowed totalExposure) (Fin 100)
                 else Fin 0)
      in \<lparr> collateralUSD = currentCollateral,
           currentCollateralUSD = currentCollateral,
           totalExposureLINK = supplied,
           totalExposureUSD = totalExposure,
           unrealizedPnL = pnl,
           unrealizedPnLPercent =
             (if js_gt initialCollateralUSD (Fin 0)
              then js_mul (js_div pnl initialCollateralUSD) (Fin 100)
              else Fin 0),
           liquidationPrice = liq,
           healthFactor = hf,
           timeRemaining = remaining,
           currentLTV = ltv,
           isAtRisk = js_lt hf (Fin 1.1) \<rparr>)"

section \<open>The position dashboard (\<open>PositionDashboard\<close>)\<close>

text \<open>
  A value thrown by an awaited call: an \<open>Error\<close> object with its message, or anything
  else. The handlers show \<open>err.message\<close> for the first and a fixed text for the second.
\<close>

datatype thrown = Error string | NotAnError

definition message_of :: "thrown \<Rightarrow> string" where
  "message_of err =
     (case err of Error m \<Rightarrow> m | NotAnError \<Rightarrow> ''An unknown error occurred.'')"

text \<open>
  The component's state variables. The countdown is the state variable
  \<open>timeRemaining\<close>; it carries a suffix because the snapshot has a field of that name.
\<close>

record Dashboard =
  position :: "Position option"
  stats :: "PositionStats option"
  linkPrice :: jsnum
  loading :: bool
  error :: "string option"
  isClosing :: bool
  timeRemaining_st :: jsnum

definition initial_Dashboard :: Dashboard where
  "initial_Dashboard =
     \<lparr> position = None, stats = None, linkPrice = Fin 0, loading = True,
       error = None, isClosing = False, timeRemaining_st = Fin 0 \<rparr>"

text \<open>
  \<open>fetchData\<close>. The connected wallet address is \<open>None\<close> when there is none; an empty
  address is falsy as well. The second argument is what the two concurrent reads
  (\<open>getPositionDetails\<close>, \<open>getLINKPrice\<close>) gave: \<open>Inl\<close> when either one failed,
  otherwise the position (or none) and the price string. The state setters are applied
  in the order of the source.
\<close>

definition fetchData ::
  "string option \<Rightarrow> thrown + (Position option \<times> string) \<Rightarrow> int \<Rightarrow> Dashboard \<Rightarrow> Dashboard"
where
  "fetchData address fetched date_now s =
     (if address = None \<or> address = Some [] then s
      else
        (case fetched of
           Inr (pos, priceString) \<Rightarrow>
             (let price = js_div (parseFloat priceString) (Fin (10 ^ 8));
                  s1 = s\<lparr>position := pos\<rparr>;
                  s2 = s1\<lparr>linkPrice := price\<rparr>;
                  s3 = (case pos of
                          Some p \<Rightarrow>
                            if isActive p then
                              (let calculatedStats = calculateStats p price date_now
                               in s2\<lparr>stats := Some calculatedStats,
                                     timeRemaining_st := timeRemaining calculatedStats\<rparr>)
                            else s2\<lparr>position := None, stats := None,
                                    timeRemaining_st := Fin 0\<rparr>
                        | None \<Rightarrow>
                            s2\<lparr>position := None, stats := None, timeRemaining_st := Fin 0\<rparr>);
                  s4 = s3\<lparr>error := None\<rparr>
              in s4\<lparr>loading := False\<rparr>)
         | Inl err \<Rightarrow>
             (let s1 = (case position s of
                          None \<Rightarrow> s\<lparr>error := Some (message_of err)\<rparr>
                        | Some p \<Rightarrow>
                            if isActive p then s\<lparr>error := Some (message_of err)\<rparr> else s)
              in s1\<lparr>loading := False\<rparr>)))"

text \<open>
  \<open>handleClosePosition\<close>; the argument is the outcome of \<open>closeLeveragePosition\<close>.
\<close>

definition handleClosePosition :: "thrown + unit \<Rightarrow> Dashboard \<Rightarrow> Dashboard" where
  "handleClosePosition outcome s =
     (let s1 = s\<lparr>isClosing := True\<rparr>;
          s2 = s1\<lparr>error := None\<rparr>;
          s3 = (case outcome of
                  Inr _ \<Rightarrow> s2\<lparr>position := None, stats := None\<rparr>
                | Inl err \<Rightarrow> s2\<lparr>error := Some (message_of err)\<rparr>)
      in s3\<lparr>isClosing := False\<rparr>)"

text \<open>
  The dashboard never keeps a position that is not active: a fetched position that is
  inactive is replaced by none at once. This is the shape of every state that the two
  handlers produce from the initial one.
\<close>

definition position_valid :: "Dashboard \<Rightarrow> bool" where
  "position_valid s = (case position s of None \<Rightarrow> True | Some p \<Rightarrow> isActive p)"

text \<open>The callback of the one-second timer (lines 109 to 112).\<close>

definition tick :: "Dashboard \<Rightarrow> Dashboard" where
  "tick s =
     (let newTime = js_sub (timeRemaining_st s) (Fin 1)
      in s\<lparr>timeRemaining_st := (if js_gt newTime (Fin 0) then newTime else Fin 0)\<rparr>)"

text \<open>
  The states of the component: the initial one, and what a refresh, a close request or
  a tick of the timer makes of a state. Nothing else writes the state variables.
\<close>

inductive reachable :: "Dashboard \<Rightarrow> bool" where
  start: "reachable initial_Dashboard"
| refresh: "reachable s \<Longrightarrow> reachable (fetchData address fetched t s)"
| close_request: "reachable s \<Longrightarrow> reachable (handleClosePosition outcome s)"
| timer: "reachable s \<Longrightarrow> reachable (tick s)"

section \<open>The borrow endpoint: size of the pre-authorization hold\<close>

text \<open>
  Line 34 of the borrow route:
  \<open>requiredPreAuth || Math.ceil(borrowAmountUSD / (selectedLTV / 100))\<close>, with
  \<open>borrowAmountUSD = parseFloat(amount)\<close>. The request field \<open>requiredPreAuth\<close> is
  whatever JSON value the body carries, or \<open>None\<close> when it carries none; \<open>||\<close> gives
  its left operand when that one is truthy and its right operand otherwise, so the hold
  is a JSON value too. \<open>amount\<close> is a string and \<open>selectedLTV\<close> a number, as the
  form sends them. The two divisions are divisions of doubles.
\<close>

definition computedPreAuth :: "string \<Rightarrow> jsnum \<Rightarrow> jsnum" where
  "computedPreAuth amount selectedLTV =
     Math_ceil (div64 (parseFloat64 amount) (div64 selectedLTV (Fin 100)))"

definition preAuthAmount :: "jsval option \<Rightarrow> string \<Rightarrow> jsnum \<Rightarrow> jsval" where
  "preAuthAmount requiredPreAuth amount selectedLTV =
     (case requiredPreAuth of
        Some v \<Rightarrow>
          if truthy (Some v) then v else JNum (computedPreAuth amount selectedLTV)
      | None \<Rightarrow> JNum (computedPreAuth amount selectedLTV))"

section \<open>The loan-creation endpoint (\<open>POST /api/loans\<close>)\<close>

type_synonym loan = "string \<rightharpoonup> jsval"

text \<open>
  What \<open>request.json()\<close> gives: it throws on a body that is not JSON; the body may be
  \<open>null\<close> (reading a field of it throws), a primitive or an array (no such field:
  \<open>undefined\<close>), or an object.
\<close>

datatype body = NotJson thrown | BodyNull | BodyOther | BodyObject loan

datatype response = Ok200 loan | BadRequest400 string | ServerError500

definition requiredFields :: "string list" where
  "requiredFields = [''id'', ''preAuthId'', ''walletAddress'', ''borrowAmount'', ''asset'']"

text \<open>
  The handler, with the store threaded through. \<open>loanStorage.createLoan\<close> lives in a
  module that is not part of the sources at hand, so it is a parameter: it gives the
  store after the call and, when it throws, the thrown value. The handler's result is
  the response and the store it leaves. The second argument is the value of
  \<open>new Date().toISOString()\<close>. The text of a 500 response is not represented.
\<close>

definition loans_POST ::
  "body \<Rightarrow> string \<Rightarrow> (loan \<Rightarrow> 'st \<Rightarrow> thrown option \<times> 'st) \<Rightarrow> 'st \<Rightarrow> response \<times> 'st"
where
  "loans_POST b now_iso createLoan store =
     (case b of
        NotJson err \<Rightarrow> (ServerError500, store)
      | BodyNull \<Rightarrow> (ServerError500, store)
      | BodyOther \<Rightarrow> (BadRequest400 (''Missing required field: '' @ hd requiredFields), store)
      | BodyObject loanData \<Rightarrow>
          (case find (\<lambda>field. \<not> truthy (loanData field)) requiredFields of
             Some field \<Rightarrow> (BadRequest400 (''Missing required field: '' @ field), store)
           | None \<Rightarrow>
               (let loanData1 = loanData(''createdAt'' \<mapsto> JStr now_iso);
                    loanData2 = loanData1(''status'' \<mapsto> JStr ''active'')
                in (case createLoan loanData2 store of
                      (None, store') \<Rightarrow> (Ok200 loanData2, store')
                    | (Some err, store') \<Rightarrow> (ServerError500, store')))))"

section \<open>Concrete inputs\<close>

text \<open>
  The position of the two price scenarios: entry price 10.00, 100 LINK supplied, 800 USD
  borrowed (and 50 LINK of collateral), each at its scale.
\<close>

definition scenario_position :: Position where
  "scenario_position =
     \<lparr> collateralLINK = ''50000000000000000000'',
       suppliedLINK = ''100000000000000000000'',
       borrowedUSDC = ''800000000'',
       entryPrice = ''1000000000'',
       preAuthExpiryTime = Fin 1700003600,
       isActive = True \<rparr>"

text \<open>The same position with nothing borrowed.\<close>

definition zero_borrow_position :: Position where
  "zero_borrow_position = scenario_position\<lparr>borrowedUSDC := ''0''\<rparr>"

text \<open>The same position once closed on chain.\<close>

definition closed_position :: Position where
  "closed_position = scenario_position\<lparr>isActive := False\<rparr>"

text \<open>
  The dashboard after a first successful fetch of the scenario position at price 12.00,
  and after a first successful fetch that found no position.
\<close>

definition active_dashboard :: Dashboard where
  "active_dashboard =
     fetchData (Some ''0xabc'') (Inr (Some scenario_position, ''1200000000''))
       1700000000000 initial_Dashboard"

definition inactive_dashboard :: Dashboard where
  "inactive_dashboard =
     fetchData (Some ''0xabc'') (Inr (None, ''1200000000'')) 1700000000000 initial_Dashboard"

text \<open>
  The dashboard that showed the scenario position, after the refresh in which the chain
  reports that position closed.
\<close>

definition closed_dashboard :: Dashboard where
  "closed_dashboard =
     fetchData (Some ''0xabc'') (Inr (Some closed_position, ''1200000000''))
       1700000060000 active_dashboard"

text \<open>
  A loan-creation body whose caller tries to set the status and the creation time, and
  a store that keeps the records it is given in a list.
\<close>

definition sample_loan :: loan where
  "sample_loan =
     [''id'' \<mapsto> JStr ''loan_1'', ''preAuthId'' \<mapsto> JStr ''pi_1'',
      ''walletAddress'' \<mapsto> JStr ''0xabc'', ''borrowAmount'' \<mapsto> JNum (Fin 800),
      ''asset'' \<mapsto> JStr ''LINK'', ''status'' \<mapsto> JStr ''closed'',
      ''createdAt'' \<mapsto> JStr ''1999-01-01T00:00:00.000Z'']"

definition list_createLoan :: "loan \<Rightarrow> loan list \<Rightarrow> thrown option \<times> loan list" where
  "list_createLoan record_in store = (None, record_in # store)"

section \<open>Evaluating the decoder\<close>

lemmas parse_defs = parseFloat_def unsigned_literal_def starts_with_def is_digit_def
  is_space_def digits_val_def exponent_of_def scale10_def

lemma parse_supplied: "parseFloat ''100000000000000000000'' = Fin (10 ^ 20)"
  by (simp add: parse_defs)

lemma parse_collateral: "parseFloat ''50000000000000000000'' = Fin (5 * 10 ^ 19)"
  by (simp add: parse_defs)

lemma parse_borrowed: "parseFloat ''800000000'' = Fin (8 * 10 ^ 8)"
  by (simp add: parse_defs)

lemma parse_entry: "parseFloat ''1000000000'' = Fin (10 ^ 9)"
  by (simp add: parse_defs)

lemma parse_price12: "parseFloat ''1200000000'' = Fin (12 * 10 ^ 8)"
  by (simp add: parse_defs)

lemma parse_zero: "parseFloat ''0'' = Fin 0"
  by (simp add: parse_defs)

lemma parse_800: "parseFloat ''800'' = Fin 800"
  by (simp add: parse_defs)

lemma parseFloat_junk: "parseFloat ''abc'' = NaN"
  by (simp add: parse_defs)

lemma parseFloat_prefix: "parseFloat '' -12.5e-1xyz'' = Fin (- 1.25)"
  by (simp add: parse_defs)

lemma dec_scenario:
  "dec_suppliedLINK scenario_position = Fin 100"
  "dec_collateralLINK scenario_position = Fin 50"
  "dec_borrowedUSDC scenario_position = Fin 800"
  "dec_entryPrice scenario_position = Fin 10"
  by (simp_all add: scenario_position_def dec_suppliedLINK_def dec_collateralLINK_def
      dec_borrowedUSDC_def dec_entryPrice_def parse_supplied parse_collateral
      parse_borrowed parse_entry)

section \<open>Properties of rounding\<close>

text \<open>
  The bit length brackets a positive integer between two powers of two, so
  \<open>exponent2\<close> is the binary exponent: \<open>2^e \<le> x < 2^(e+1)\<close>.
\<close>

lemma bitlen_bounds:
  "0 < n \<Longrightarrow> 2 ^ (bitlen n - 1) \<le> n \<and> n < 2 ^ bitlen n"
proof (induction n rule: bitlen.induct)
  case (1 n)
  show ?case
  proof (cases "n div 2 \<le> 0")
    case True
    with "1.prems" have "n = 1" by linarith
    then show ?thesis by (simp add: bitlen.simps)
  next
    case False
    then have m: "0 < n div 2" by simp
    with "1.prems" "1.IH" have IH: "2 ^ (bitlen (n div 2) - 1) \<le> n div 2" "n div 2 < 2 ^ bitlen (n div 2)"
      by auto
    from m have pos: "0 < bitlen (n div 2)"
      by (simp add: bitlen.simps [of "n div 2"])
    have bl: "bitlen n = Suc (bitlen (n div 2))"
      using "1.prems" by (simp add: bitlen.simps [of n])
    have "(2::int) ^ bitlen (n div 2) = 2 * 2 ^ (bitlen (n div 2) - 1)"
      using pos by (cases "bitlen (n div 2)") simp_all
    with IH(1) have lo: "2 ^ bitlen (n div 2) \<le> n"
      by linarith
    from IH(2) have hi: "n < 2 * 2 ^ bitlen (n div 2)"
      by linarith
    from lo hi bl show ?thesis by simp
  qed
qed


lemma bitlen_pos: "0 < n \<Longrightarrow> 0 < bitlen n"
  by (simp add: bitlen.simps [of n])

lemma exponent2_bounds:
  assumes "0 < x"
  shows "pow2 (exponent2 x) \<le> x \<and> x < 2 * pow2 (exponent2 x)"
proof (cases "1 \<le> x")
  case True
  define n where "n = \<lfloor>x\<rfloor>"
  define b where "b = bitlen n"
  from True have n: "0 < n" unfolding n_def by simp
  from bitlen_bounds [OF n] have bn: "2 ^ (b - 1) \<le> n" "n < 2 ^ b"
    unfolding b_def by simp_all
  from bitlen_pos [OF n] have bpos: "0 < b" unfolding b_def .
  have e: "pow2 (exponent2 x) = 2 ^ (b - 1)"
    using True bpos by (simp add: exponent2_def pow2_def n_def [symmetric] b_def [symmetric] nat_diff_distrib)
  have "of_int (2 ^ (b - 1)) \<le> (of_int n :: rat)"
    using bn(1) by (simp only: of_int_le_iff)
  also have "of_int n \<le> x" unfolding n_def by simp
  finally have lo: "2 ^ (b - 1) \<le> x" by simp
  have "x < of_int (n + 1)" unfolding n_def by linarith
  also have "(of_int (n + 1) :: rat) \<le> of_int (2 ^ b)"
    using bn(2) by (simp only: of_int_le_iff)
  also have "(of_int (2 ^ b) :: rat) = 2 * 2 ^ (b - 1)"
    using bpos by (cases b) simp_all
  finally have hi: "x < 2 * 2 ^ (b - 1)" .
  from lo hi e show ?thesis by simp
next
  case False
  define y where "y = 1 / x"
  define n where "n = \<lceil>y\<rceil> - 1"
  define k where "k = bitlen n"
  from False assms have y1: "1 < y" unfolding y_def by simp
  then have n: "0 < n" unfolding n_def by linarith
  from bitlen_bounds [OF n] have bn: "2 ^ (k - 1) \<le> n" "n < 2 ^ k"
    unfolding k_def by simp_all
  from bitlen_pos [OF n] have kpos: "0 < k" unfolding k_def .
  have e: "pow2 (exponent2 x) = 1 / 2 ^ k"
    using False kpos
    by (simp add: exponent2_def pow2_def y_def [symmetric] n_def [symmetric] k_def [symmetric])
  have "y \<le> of_int (n + 1)" unfolding n_def by simp
  also have "(of_int (n + 1) :: rat) \<le> of_int (2 ^ k)"
    using bn(2) by (simp only: of_int_le_iff)
  finally have yk: "y \<le> 2 ^ k" by simp
  have "(of_int (2 ^ (k - 1)) :: rat) \<le> of_int n"
    using bn(1) by (simp only: of_int_le_iff)
  also have "of_int n < y" unfolding n_def by linarith
  finally have ky: "2 ^ (k - 1) < y" by simp
  have k2: "(2::rat) ^ k = 2 * 2 ^ (k - 1)"
    using kpos by (cases k) simp_all
  from yk assms have lo: "1 / 2 ^ k \<le> x"
    unfolding y_def by (simp add: field_simps)
  from ky k2 assms have hi: "x < 2 * (1 / 2 ^ k)"
    unfolding y_def by (simp add: field_simps)
  from lo hi e show ?thesis by simp
qed

text \<open>
  Rounding to an integer moves a value by at most one half and leaves integers alone;
  a rounded positive rational is therefore within half a unit of the last place.
\<close>

lemma round_half_even_near: "\<bar>of_int (round_half_even x) - x\<bar> \<le> 1 / 2"
proof -
  have "of_int \<lfloor>x\<rfloor> \<le> x" "x < of_int \<lfloor>x\<rfloor> + 1"
    by linarith+
  then show ?thesis
    unfolding round_half_even_def Let_def by (auto simp: abs_le_iff)
qed

lemma round_half_even_of_int: "round_half_even (of_int m) = m"
  by (simp add: round_half_even_def)


lemma pow2_pos: "0 < pow2 k"
  by (simp add: pow2_def)

lemma round64_pos_near:
  assumes "round64_pos x = Fin r"
  shows "\<bar>r - x\<bar> \<le> pow2 (max (exponent2 x) (- 1022) - 52) / 2"
proof -
  define q where "q = max (exponent2 x) (- 1022) - 52"
  define m where "m = round_half_even (x / pow2 q)"
  have r: "r = of_int m * pow2 q"
    using assms unfolding round64_pos_def Let_def q_def [symmetric] m_def [symmetric]
    by (simp split: if_splits)
  have pos: "0 < pow2 q" by (rule pow2_pos)
  have "r - x = (of_int m - x / pow2 q) * pow2 q"
    using pos by (simp add: r field_simps)
  then have "\<bar>r - x\<bar> = \<bar>of_int m - x / pow2 q\<bar> * pow2 q"
    using pos by (simp add: abs_mult)
  also have "\<dots> \<le> (1 / 2) * pow2 q"
    using round_half_even_near [of "x / pow2 q"] pos
    unfolding m_def by (intro mult_right_mono) simp_all
  finally show ?thesis unfolding q_def by simp
qed

text \<open>
  Some doubles: 0.1 and 0.7 are not representable, and the two integers just above
  \<open>2^53\<close> show the tie going to the even significand.
\<close>

lemma round64_examples:
  "round64 (1 / 10) = Fin (3602879701896397 / 2 ^ 55)"
  "round64 (7 / 10) = Fin (3152519739159347 / 2 ^ 52)"
  "round64 (2 ^ 53 + 1) = Fin (2 ^ 53)"
  "round64 (2 ^ 53 + 3) = Fin (2 ^ 53 + 4)"
  "round64 (- (1 / 2)) = Fin (- (1 / 2))"
  by code_simp+

section \<open>Properties of the risk computation\<close>

lemma not_gt_zero:
  assumes "js_le price (Fin 0)" and "0 \<le> a"
  shows "\<not> js_gt (js_mul (Fin a) price) (Fin 0)"
  using assms
  by (cases price)
    (auto simp: js_gt_def js_le_def js_inf_of_sign_def js_sign_def zero_less_mult_iff sgn_if)

text \<open>
  The guards of the liquidation price and of the loan-to-value ratio test the
  denominator, so for finite inputs these two fields are finite: neither division is
  ever by zero.
\<close>

lemma denominator_guards_finite:
  assumes "dec_suppliedLINK p = Fin a" and "dec_borrowedUSDC p = Fin b"
  shows "\<exists>r. liquidationPrice (calculateStats p (Fin x) t) = Fin r"
    and "\<exists>r. currentLTV (calculateStats p (Fin x) t) = Fin r"
  using assms
  by (simp_all add: calculateStats_def Let_def js_gt_def liquidationThreshold_def)

text \<open>
  The guard of the health factor tests the exposure, which is the numerator. Whenever
  the exposure is positive the quotient is taken, whatever the borrowed amount.
\<close>

lemma healthFactor_positive_exposure:
  assumes "js_gt (js_mul (dec_suppliedLINK p) price) (Fin 0)"
  shows "healthFactor (calculateStats p price t) =
           js_div (js_mul (totalExposureUSD (calculateStats p price t)) (Fin 0.85))
                  (dec_borrowedUSDC p)"
  using assms by (simp add: calculateStats_def Let_def liquidationThreshold_def)

text \<open>
  C1. The claim: for non-negative decoded quantities and every price the health factor
  is \<open>(totalExposureNow * 0.85) / borrowedAmount\<close>, and it is 0 when the borrowed
  amount is 0, so that no division by zero takes place. The code guards the division
  with \<open>totalExposureUSD > 0\<close>, not with the borrowed amount: for the position with
  100 LINK supplied and nothing borrowed, at price 12.00, the borrowed amount decodes to
  0, the exposure is 1200, the division by zero is carried out and the health factor is
  \<open>Infinity\<close>, not 0; the position is then not reported at risk.
\<close>

theorem calculateStats_zero_borrow_health_factor:
  "dec_borrowedUSDC zero_borrow_position = Fin 0
   \<and> totalExposureUSD (calculateStats zero_borrow_position (Fin 12) 1700000000000) = Fin 1200
   \<and> healthFactor (calculateStats zero_borrow_position (Fin 12) 1700000000000) = PosInf
   \<and> healthFactor (calculateStats zero_borrow_position (Fin 12) 1700000000000) \<noteq> Fin 0
   \<and> \<not> isAtRisk (calculateStats zero_borrow_position (Fin 12) 1700000000000)"
  by (simp add: calculateStats_def Let_def zero_borrow_position_def scenario_position_def
      dec_suppliedLINK_def dec_borrowedUSDC_def parse_supplied parse_zero js_gt_def
      liquidationThreshold_def js_inf_of_sign_def)

text \<open>
  C2. For the position with entry price 10.00, 100 supplied and 800 borrowed (whatever
  its collateral and expiry, and whatever the clock): at price 12.00 the exposure at
  entry is 1000, the exposure now 1200, the unrealized P&L 200, the health factor 1.275
  and the position is not at risk; at price 9.00 the exposure now is 900, the health
  factor is 0.956 to three decimals (it lies in the interval from 0.9555 to 0.9565), the
  position is at risk, and the loan-to-value ratio is 88.9 per cent to one decimal (it
  lies in the interval from 88.85 to 88.95).
\<close>

theorem scenario_risk_values:
  assumes "suppliedLINK p = ''100000000000000000000''"
    and "borrowedUSDC p = ''800000000''"
    and "entryPrice p = ''1000000000''"
  shows "initialTotalExposureUSD p = Fin 1000
       \<and> totalExposureUSD (calculateStats p (Fin 12) t) = Fin 1200
       \<and> unrealizedPnL (calculateStats p (Fin 12) t) = Fin 200
       \<and> healthFactor (calculateStats p (Fin 12) t) = Fin 1.275
       \<and> \<not> isAtRisk (calculateStats p (Fin 12) t)
       \<and> totalExposureUSD (calculateStats p (Fin 9) t) = Fin 900
       \<and> js_le (Fin 0.9555) (healthFactor (calculateStats p (Fin 9) t))
       \<and> js_lt (healthFactor (calculateStats p (Fin 9) t)) (Fin 0.9565)
       \<and> isAtRisk (calculateStats p (Fin 9) t)
       \<and> js_le (Fin 88.85) (currentLTV (calculateStats p (Fin 9) t))
       \<and> js_lt (currentLTV (calculateStats p (Fin 9) t)) (Fin 88.95)"
  using assms
  by (simp add: calculateStats_def Let_def initialTotalExposureUSD_def dec_suppliedLINK_def
      dec_borrowedUSDC_def dec_entryPrice_def parse_supplied parse_borrowed parse_entry
      js_gt_def js_le_def liquidationThreshold_def)

text \<open>The scenario position satisfies the three hypotheses; its values at both prices.\<close>

theorem scenario_risk_values_witness:
  "suppliedLINK scenario_position = ''100000000000000000000''
   \<and> borrowedUSDC scenario_position = ''800000000''
   \<and> entryPrice scenario_position = ''1000000000''
   \<and> initialTotalExposureUSD scenario_position = Fin 1000
   \<and> totalExposureUSD (calculateStats scenario_position (Fin 12) 1700000000000) = Fin 1200
   \<and> unrealizedPnL (calculateStats scenario_position (Fin 12) 1700000000000) = Fin 200
   \<and> healthFactor (calculateStats scenario_position (Fin 12) 1700000000000) = Fin 1.275
   \<and> \<not> isAtRisk (calculateStats scenario_position (Fin 12) 1700000000000)
   \<and> totalExposureUSD (calculateStats scenario_position (Fin 9) 1700000000000) = Fin 900
   \<and> js_le (Fin 0.9555) (healthFactor (calculateStats scenario_position (Fin 9) 1700000000000))
   \<and> js_lt (healthFactor (calculateStats scenario_position (Fin 9) 1700000000000)) (Fin 0.9565)
   \<and> isAtRisk (calculateStats scenario_position (Fin 9) 1700000000000)
   \<and> js_le (Fin 88.85) (currentLTV (calculateStats scenario_position (Fin 9) 1700000000000))
   \<and> js_lt (currentLTV (calculateStats scenario_position (Fin 9) 1700000000000)) (Fin 88.95)"
  using scenario_risk_values [of scenario_position 1700000000000]
  by (simp add: scenario_position_def)

text \<open>
  The same scenario values with every operation rounded to a double: the two products
  with the double 0.85 are exactly 1020 and 765, the health factors are the doubles
  nearest to 1.275 and to 0.95625, and the loan-to-value ratio is the double
  88.88888888888889, inside the same interval.
\<close>

lemma scenario_values_in_doubles:
  "mul64 (Fin 1200) (round64 0.85) = Fin 1020"
  "div64 (Fin 1020) (Fin 800) = round64 1.275"
  "mul64 (Fin 900) (round64 0.85) = Fin 765"
  "div64 (Fin 765) (Fin 800) = round64 0.95625"
  "mul64 (div64 (Fin 800) (Fin 900)) (Fin 100) = Fin (3127499741229511 / 2 ^ 45)"
  "js_le (Fin 88.85) (Fin (3127499741229511 / 2 ^ 45))"
  "js_lt (Fin (3127499741229511 / 2 ^ 45)) (Fin 88.95)"
  by code_simp+

text \<open>
  C3. For every snapshot that the risk computation produces, \<open>isAtRisk\<close> is true
  exactly when the snapshot's health factor is below 1.10 (a health factor that is
  \<open>NaN\<close> or infinite is not below 1.10, and the flag is then false).
\<close>

theorem isAtRisk_iff_health_below_threshold:
  "isAtRisk (calculateStats p price t)
     = js_lt (healthFactor (calculateStats p price t)) (Fin 1.10)"
  by (simp add: calculateStats_def Let_def)

text \<open>
  C4, as amended. For a position whose supplied amount and collateral decode to finite
  non-negative values, if the current price is at most 0 then the health factor and the
  loan-to-value ratio are 0 and the position is at risk, without any division by the
  exposure. The exposure fields are the products \<open>supplied * price\<close> and
  \<open>collateral * price\<close>: they are never positive, and they are 0 when the price is
  exactly 0.
\<close>

theorem nonpositive_price_snapshot:
  assumes "js_le price (Fin 0)"
    and "dec_suppliedLINK p = Fin a" and "0 \<le> a"
    and "dec_collateralLINK p = Fin c" and "0 \<le> c"
  shows "healthFactor (calculateStats p price t) = Fin 0
       \<and> currentLTV (calculateStats p price t) = Fin 0
       \<and> isAtRisk (calculateStats p price t)
       \<and> totalExposureUSD (calculateStats p price t) = js_mul (Fin a) price
       \<and> collateralUSD (calculateStats p price t) = js_mul (Fin c) price
       \<and> currentCollateralUSD (calculateStats p price t) = js_mul (Fin c) price
       \<and> \<not> js_gt (totalExposureUSD (calculateStats p price t)) (Fin 0)
       \<and> \<not> js_gt (collateralUSD (calculateStats p price t)) (Fin 0)
       \<and> (price = Fin 0 \<longrightarrow>
             totalExposureUSD (calculateStats p price t) = Fin 0
           \<and> collateralUSD (calculateStats p price t) = Fin 0
           \<and> currentCollateralUSD (calculateStats p price t) = Fin 0)"
  using not_gt_zero [OF assms(1,3)] not_gt_zero [OF assms(1,5)] assms(2,4)
  by (simp add: calculateStats_def Let_def)

text \<open>At price 0 the scenario position has all of these fields equal to 0.\<close>

theorem nonpositive_price_snapshot_witness:
  "js_le (Fin 0) (Fin 0)
   \<and> dec_suppliedLINK scenario_position = Fin 100
   \<and> dec_collateralLINK scenario_position = Fin 50
   \<and> healthFactor (calculateStats scenario_position (Fin 0) 1700000000000) = Fin 0
   \<and> currentLTV (calculateStats scenario_position (Fin 0) 1700000000000) = Fin 0
   \<and> isAtRisk (calculateStats scenario_position (Fin 0) 1700000000000)
   \<and> totalExposureUSD (calculateStats scenario_position (Fin 0) 1700000000000) = Fin 0
   \<and> collateralUSD (calculateStats scenario_position (Fin 0) 1700000000000) = Fin 0"
proof -
  have le: "js_le (Fin 0) (Fin 0)"
    by (simp add: js_le_def)
  have nonneg: "(0::rat) \<le> 100" "(0::rat) \<le> 50"
    by simp_all
  show ?thesis
    using nonpositive_price_snapshot
      [OF le dec_scenario(1) nonneg(1) dec_scenario(2) nonneg(2), of 1700000000000]
      le dec_scenario(1,2)
    by simp
qed

text \<open>
  C4 as stated fails for a negative price: at price -1.00 the exposure of the scenario
  position is -100, not 0 (and the collateral value is -50).
\<close>

theorem negative_price_exposure_nonzero:
  "js_le (Fin (- 1)) (Fin 0)
   \<and> totalExposureUSD (calculateStats scenario_position (Fin (- 1)) 1700000000000) = Fin (- 100)
   \<and> totalExposureUSD (calculateStats scenario_position (Fin (- 1)) 1700000000000) \<noteq> Fin 0
   \<and> collateralUSD (calculateStats scenario_position (Fin (- 1)) 1700000000000) = Fin (- 50)"
  by (simp add: calculateStats_def Let_def scenario_position_def dec_suppliedLINK_def
      dec_collateralLINK_def parse_supplied parse_collateral js_le_def)

section \<open>Properties of the dashboard\<close>

lemma active_dashboard_holds:
  "position active_dashboard = Some scenario_position"
  "stats active_dashboard \<noteq> None"
  "timeRemaining_st active_dashboard = Fin 3600"
  "error active_dashboard = None"
  by (simp_all add: active_dashboard_def fetchData_def Let_def initial_Dashboard_def
      scenario_position_def calculateStats_def)

lemma inactive_dashboard_holds:
  "position inactive_dashboard = None"
  "stats inactive_dashboard = None"
  "error inactive_dashboard = None"
  by (simp_all add: inactive_dashboard_def fetchData_def Let_def initial_Dashboard_def)

text \<open>
  The position held is none or active in the initial state, and every writer of the
  state keeps it so: a position that the chain reports closed is stored as none, never
  as an inactive position. Hence in every reachable state a refresh whose fetch fails
  shows the error; the branch of \<open>fetchData\<close> that keeps a failure silent is never
  taken.
\<close>

lemma initial_position_valid: "position_valid initial_Dashboard"
  by (simp add: position_valid_def initial_Dashboard_def)

lemma fetchData_position_valid:
  assumes "position_valid s"
  shows "position_valid (fetchData address fetched t s)"
proof (cases fetched)
  case (Inl err)
  with assms show ?thesis
    by (auto simp: position_valid_def fetchData_def Let_def split: option.splits)
next
  case (Inr got)
  obtain pos priceString where "got = (pos, priceString)"
    by (cases got)
  with Inr assms show ?thesis
    by (auto simp: position_valid_def fetchData_def Let_def split: option.splits)
qed

lemma handleClosePosition_position_valid:
  assumes "position_valid s"
  shows "position_valid (handleClosePosition outcome s)"
  using assms
  by (cases outcome) (auto simp: position_valid_def handleClosePosition_def Let_def)

lemma tick_position_valid:
  assumes "position_valid s"
  shows "position_valid (tick s)"
  using assms by (simp add: position_valid_def tick_def Let_def)

lemma reachable_position_valid:
  assumes "reachable s"
  shows "position_valid s"
  using assms
proof (induction rule: reachable.induct)
  case start
  show ?case by (rule initial_position_valid)
next
  case (refresh s address fetched t)
  then show ?case by (simp add: fetchData_position_valid)
next
  case (close_request s outcome)
  then show ?case by (simp add: handleClosePosition_position_valid)
next
  case (timer s)
  then show ?case by (simp add: tick_position_valid)
qed

lemma fetchData_failure_surfaces_when_valid:
  assumes "position_valid s" and "address = Some a" and "a \<noteq> []"
  shows "error (fetchData address (Inl err) t s) = Some (message_of err)"
  using assms
  by (auto simp: position_valid_def fetchData_def Let_def split: option.splits)

lemma reachable_failure_surfaces:
  assumes "reachable s" and "address = Some a" and "a \<noteq> []"
  shows "error (fetchData address (Inl err) t s) = Some (message_of err)"
  using fetchData_failure_surfaces_when_valid [OF reachable_position_valid [OF assms(1)] assms(2,3)] .

lemma closed_dashboard_reachable: "reachable closed_dashboard"
  unfolding closed_dashboard_def active_dashboard_def
  by (intro reachable.refresh reachable.start)

lemma closed_dashboard_holds:
  "position closed_dashboard = None"
  "stats closed_dashboard = None"
  "error closed_dashboard = None"
  by (simp_all add: closed_dashboard_def fetchData_def Let_def closed_position_def)

text \<open>
  C5. For every refresh of a connected wallet whose two reads succeed and in which the
  fetched position is absent or has \<open>isActive = false\<close>, the state afterwards has no
  position, no risk snapshot and a countdown of 0, whatever the state was before.
\<close>

theorem fetchData_inactive_clears:
  assumes "address = Some a" and "a \<noteq> []"
    and "pos = None \<or> (\<exists>p. pos = Some p \<and> \<not> isActive p)"
  shows "position (fetchData address (Inr (pos, priceString)) t s) = None
       \<and> stats (fetchData address (Inr (pos, priceString)) t s) = None
       \<and> timeRemaining_st (fetchData address (Inr (pos, priceString)) t s) = Fin 0"
  using assms by (auto simp: fetchData_def Let_def)

text \<open>
  The dashboard that shows the scenario position, refreshed when the chain reports the
  position closed: position, snapshot and countdown are cleared.
\<close>

theorem fetchData_inactive_clears_witness:
  "position active_dashboard = Some scenario_position
   \<and> stats active_dashboard \<noteq> None
   \<and> timeRemaining_st active_dashboard = Fin 3600
   \<and> \<not> isActive closed_position
   \<and> position (fetchData (Some ''0xabc'') (Inr (Some closed_position, ''1200000000''))
        1700000060000 active_dashboard) = None
   \<and> stats (fetchData (Some ''0xabc'') (Inr (Some closed_position, ''1200000000''))
        1700000060000 active_dashboard) = None
   \<and> timeRemaining_st (fetchData (Some ''0xabc'') (Inr (Some closed_position, ''1200000000''))
        1700000060000 active_dashboard) = Fin 0"
proof -
  have inactive: "\<not> isActive closed_position"
    by (simp add: closed_position_def)
  have h: "Some closed_position = None \<or> (\<exists>p. Some closed_position = Some p \<and> \<not> isActive p)"
    using inactive by simp
  have addr: "''0xabc'' \<noteq> []"
    by simp
  show ?thesis
    using fetchData_inactive_clears [OF refl addr h, of "''1200000000''" 1700000060000
        active_dashboard]
      active_dashboard_holds inactive
    by simp
qed

text \<open>
  C6. For every refresh of a connected wallet whose position read or price read fails
  while the dashboard holds an active position, the position, the risk snapshot and the
  countdown held before the refresh are unchanged, and the error message is surfaced.
\<close>

theorem fetchData_failure_keeps_state:
  assumes "address = Some a" and "a \<noteq> []"
    and "position s = Some p" and "isActive p"
  shows "position (fetchData address (Inl err) t s) = position s
       \<and> stats (fetchData address (Inl err) t s) = stats s
       \<and> timeRemaining_st (fetchData address (Inl err) t s) = timeRemaining_st s
       \<and> error (fetchData address (Inl err) t s) = Some (message_of err)"
  using assms by (simp add: fetchData_def Let_def)

text \<open>A failed read on the dashboard that shows the scenario position.\<close>

theorem fetchData_failure_keeps_state_witness:
  "position active_dashboard = Some scenario_position
   \<and> isActive scenario_position
   \<and> position (fetchData (Some ''0xabc'') (Inl (Error ''read failed'')) 1700000060000
        active_dashboard) = Some scenario_position
   \<and> stats (fetchData (Some ''0xabc'') (Inl (Error ''read failed'')) 1700000060000
        active_dashboard) = stats active_dashboard
   \<and> timeRemaining_st (fetchData (Some ''0xabc'') (Inl (Error ''read failed'')) 1700000060000
        active_dashboard) = Fin 3600
   \<and> error (fetchData (Some ''0xabc'') (Inl (Error ''read failed'')) 1700000060000
        active_dashboard) = Some ''read failed''"
proof -
  have active: "isActive scenario_position"
    by (simp add: scenario_position_def)
  have addr: "''0xabc'' \<noteq> []"
    by simp
  show ?thesis
    using fetchData_failure_keeps_state [OF refl addr active_dashboard_holds(1) active,
        of "Error ''read failed''" 1700000060000]
      active_dashboard_holds active
    by (simp add: message_of_def)
qed

text \<open>
  What the catch branch of \<open>fetchData\<close> does with the error, state by state.
\<close>

lemma fetchData_catch_error:
  assumes "address = Some a" and "a \<noteq> []"
  shows "error (fetchData address (Inl err) t s) =
           (case position s of
              None \<Rightarrow> Some (message_of err)
            | Some p \<Rightarrow> if isActive p then Some (message_of err) else error s)"
  using assms by (simp add: fetchData_def Let_def split: option.splits)

text \<open>
  C7. The claim: a refresh whose fetch fails while no position is present surfaces no
  error. The code does not do so. Once the chain has reported the position closed the
  dashboard holds no position and shows no error; the next refresh, whose fetch fails,
  sets the error. The same happens on the dashboard whose first refresh found no
  position, and after a close request that succeeded.
\<close>

theorem fetchData_failure_without_position_surfaces:
  "position closed_dashboard = None
   \<and> error closed_dashboard = None
   \<and> error (fetchData (Some ''0xabc'') (Inl (Error ''read failed'')) 1700000120000
        closed_dashboard) = Some ''read failed''
   \<and> position inactive_dashboard = None
   \<and> error inactive_dashboard = None
   \<and> error (fetchData (Some ''0xabc'') (Inl (Error ''read failed'')) 1700000120000
        inactive_dashboard) = Some ''read failed''
   \<and> position (handleClosePosition (Inr ()) active_dashboard) = None
   \<and> error (handleClosePosition (Inr ()) active_dashboard) = None
   \<and> error (fetchData (Some ''0xabc'') (Inl (Error ''read failed'')) 1700000120000
        (handleClosePosition (Inr ()) active_dashboard)) = Some ''read failed''"
  by (simp add: closed_dashboard_holds inactive_dashboard_holds fetchData_def Let_def
      handleClosePosition_def message_of_def)

text \<open>
  C9. For every close request: when the chain close operation succeeds the dashboard
  ends with no position and no snapshot, no error, and the closing flag lowered; when
  it fails, the position, the snapshot and the countdown are those held before, the
  error message is surfaced, and the closing flag is lowered. This holds in every state,
  so in particular while a position is active.
\<close>

theorem handleClosePosition_outcomes:
  "position (handleClosePosition (Inr ()) s) = None
   \<and> stats (handleClosePosition (Inr ()) s) = None
   \<and> error (handleClosePosition (Inr ()) s) = None
   \<and> \<not> isClosing (handleClosePosition (Inr ()) s)
   \<and> position (handleClosePosition (Inl err) s) = position s
   \<and> stats (handleClosePosition (Inl err) s) = stats s
   \<and> timeRemaining_st (handleClosePosition (Inl err) s) = timeRemaining_st s
   \<and> error (handleClosePosition (Inl err) s) = Some (message_of err)
   \<and> \<not> isClosing (handleClosePosition (Inl err) s)"
  by (simp add: handleClosePosition_def Let_def)

section \<open>Properties of the two endpoints\<close>

text \<open>
  The hold computed for 800 at a loan-to-value of 50 per cent is 1600. For 21 at 70 per
  cent the double \<open>70 / 100\<close> lies below 0.7, the quotient is the double next above
  30, and the hold is 31, one more than the ceiling of the exact quotient.
\<close>

lemma computedPreAuth_800_at_50: "computedPreAuth ''800'' (Fin 50) = Fin 1600"
  unfolding computedPreAuth_def parseFloat64_def by code_simp

lemma computedPreAuth_21_at_70: "computedPreAuth ''21'' (Fin 70) = Fin 31"
  unfolding computedPreAuth_def parseFloat64_def by code_simp

lemma exact_ceiling_21_at_70: "Math_ceil (js_div (parseFloat ''21'') (js_div (Fin 70) (Fin 100))) = Fin 30"
  by (simp add: parse_defs Math_ceil_def)

text \<open>
  C8, as amended. For every borrow request the hold amount is
  \<open>Math.ceil(borrowAmountUSD / (ltvPercent / 100))\<close>, the quotients being those of
  doubles, when the request carries no override and also when the override it carries
  is falsy (0, \<open>NaN\<close>, the empty string, \<open>null\<close>, \<open>false\<close>); it is the override
  itself, whatever its JSON type, whenever that one is truthy.
\<close>

theorem preAuthAmount_override:
  "(\<not> truthy requiredPreAuth \<longrightarrow>
      preAuthAmount requiredPreAuth amount selectedLTV
        = JNum (Math_ceil (div64 (parseFloat64 amount) (div64 selectedLTV (Fin 100)))))
   \<and> (\<forall>v. requiredPreAuth = Some v \<and> truthy (Some v) \<longrightarrow>
      preAuthAmount requiredPreAuth amount selectedLTV = v)"
  by (auto simp: preAuthAmount_def computedPreAuth_def truthy_def split: option.splits)

text \<open>
  Borrowing 800 at a loan-to-value of 50 per cent: the hold is 1600 without an override,
  2000 when the caller asks for the number 2000, and the string \<open>"0"\<close> when the
  caller sends that string.
\<close>

theorem preAuthAmount_override_witness:
  "\<not> truthy None
   \<and> preAuthAmount None ''800'' (Fin 50) = JNum (Fin 1600)
   \<and> truthy (Some (JNum (Fin 2000)))
   \<and> preAuthAmount (Some (JNum (Fin 2000))) ''800'' (Fin 50) = JNum (Fin 2000)
   \<and> truthy (Some (JStr ''0''))
   \<and> preAuthAmount (Some (JStr ''0'')) ''800'' (Fin 50) = JStr ''0''"
  using preAuthAmount_override [of None "''800''" "Fin 50"]
    preAuthAmount_override [of "Some (JNum (Fin 2000))" "''800''" "Fin 50"]
    preAuthAmount_override [of "Some (JStr ''0'')" "''800''" "Fin 50"]
    computedPreAuth_800_at_50
  by (simp add: truthy_def truthy_num_def computedPreAuth_def)

text \<open>
  C8 as stated fails for an override that is present and 0: the hold is then the
  computed 1600, not the override.
\<close>

theorem preAuthAmount_zero_override_ignored:
  "preAuthAmount (Some (JNum (Fin 0))) ''800'' (Fin 50) = JNum (Fin 1600)
   \<and> preAuthAmount (Some (JNum (Fin 0))) ''800'' (Fin 50) \<noteq> JNum (Fin 0)"
  by (simp add: preAuthAmount_def truthy_def truthy_num_def computedPreAuth_800_at_50)

text \<open>A rejected request never reaches the store.\<close>

lemma loans_POST_rejected_keeps_store:
  assumes "fst (loans_POST b now_iso createLoan store) = BadRequest400 msg"
  shows "snd (loans_POST b now_iso createLoan store) = store"
  using assms
  by (auto simp: loans_POST_def Let_def split: body.splits option.splits prod.splits)

text \<open>
  C10. Every loan record that the loan-creation endpoint accepts is handed to the store
  with status \<open>active\<close> and the server's creation timestamp: the stored record is the
  request's object with these two fields overwritten, whatever the caller supplied for
  them, so its status is none of closed, liquidated or failed.
\<close>

theorem loans_POST_stores_active:
  assumes "loans_POST b now_iso createLoan store = (Ok200 stored, store')"
  shows "createLoan stored store = (None, store')
       \<and> stored ''status'' = Some (JStr ''active'')
       \<and> stored ''createdAt'' = Some (JStr now_iso)
       \<and> stored ''status'' \<notin> {Some (JStr ''closed''), Some (JStr ''liquidated''),
            Some (JStr ''failed'')}
       \<and> (\<exists>loanData. b = BodyObject loanData
             \<and> stored = loanData(''createdAt'' \<mapsto> JStr now_iso, ''status'' \<mapsto> JStr ''active''))"
  using assms
  by (auto simp: loans_POST_def Let_def split: body.splits option.splits prod.splits)

text \<open>
  A request that supplies status \<open>closed\<close> and a creation time of its own: it is
  accepted, and the record put in the store is active and carries the server's time.
\<close>

theorem loans_POST_stores_active_witness:
  "sample_loan ''status'' = Some (JStr ''closed'')
   \<and> sample_loan ''createdAt'' = Some (JStr ''1999-01-01T00:00:00.000Z'')
   \<and> loans_POST (BodyObject sample_loan) ''2025-01-01T00:00:00.000Z'' list_createLoan []
       = (Ok200 (sample_loan(''createdAt'' \<mapsto> JStr ''2025-01-01T00:00:00.000Z'',
                   ''status'' \<mapsto> JStr ''active'')),
          [sample_loan(''createdAt'' \<mapsto> JStr ''2025-01-01T00:00:00.000Z'',
             ''status'' \<mapsto> JStr ''active'')])
   \<and> (sample_loan(''createdAt'' \<mapsto> JStr ''2025-01-01T00:00:00.000Z'',
         ''status'' \<mapsto> JStr ''active'')) ''status'' = Some (JStr ''active'')
   \<and> (sample_loan(''createdAt'' \<mapsto> JStr ''2025-01-01T00:00:00.000Z'',
         ''status'' \<mapsto> JStr ''active'')) ''createdAt''
       = Some (JStr ''2025-01-01T00:00:00.000Z'')"
proof -
  let ?stored = "sample_loan(''createdAt'' \<mapsto> JStr ''2025-01-01T00:00:00.000Z'',
                    ''status'' \<mapsto> JStr ''active'')"
  have run: "loans_POST (BodyObject sample_loan) ''2025-01-01T00:00:00.000Z''
               list_createLoan [] = (Ok200 ?stored, [?stored])"
    by (simp add: loans_POST_def Let_def requiredFields_def truthy_def truthy_num_def
        sample_loan_def list_createLoan_def)
  have given: "sample_loan ''status'' = Some (JStr ''closed'')"
    "sample_loan ''createdAt'' = Some (JStr ''1999-01-01T00:00:00.000Z'')"
    by (simp_all add: sample_loan_def)
  from loans_POST_stores_active [OF run] run given show ?thesis
    by blast
qed

end
